theory Spec2Isabelle
  imports Main "HOL-Library.Word"
begin

section \<open>Status codes and fields\<close>

text \<open>
  The status codes of the engine that the Eudoxus operator module and the Lua bridge
  return or test.
\<close>

datatype ib_status =
    IB_OK | IB_DECLINED | IB_EUNKNOWN | IB_ENOTIMPL | IB_EINCOMPAT | IB_EALLOC
  | IB_EINVAL | IB_ENOENT | IB_ETRUNC | IB_ETIMEDOUT | IB_EAGAIN | IB_EOTHER
  | IB_EBADVAL | IB_EEXIST

datatype ib_ftype =
    IB_FTYPE_GENERIC | IB_FTYPE_NUM | IB_FTYPE_TIME | IB_FTYPE_FLOAT
  | IB_FTYPE_NULSTR | IB_FTYPE_BYTESTR | IB_FTYPE_LIST | IB_FTYPE_SBUFFER

text \<open>
  An input field: its type tag, the status that \<open>ib_field_value\<close> returns for it and the
  bytes that it hands out on success.
\<close>

record ib_field =
  ftype :: ib_ftype
  fvalue_rc :: ib_status
  fvalue :: string

text \<open>\<open>strlen\<close>: the bytes before the first NUL.\<close>

definition c_strlen_prefix :: "string \<Rightarrow> string" where
  "c_strlen_prefix s = takeWhile (\<lambda>c. c \<noteq> CHR 0x00) s"

section \<open>The automata library\<close>

text \<open>
  Modelled from the spec: the Eudoxus automata library (\<open>ia_eudoxus_execute\<close>,
  \<open>ia_eudoxus_create_state\<close>, \<open>ia_eudoxus_destroy_state\<close>) is not part of the sources at
  hand. The spec describes it as a precompiled multi-pattern matcher executed incrementally
  over byte input, which reports a match to a callback that answers continue, stop or
  error, which can be resumed after a stop, and which reports exhaustion once no transition
  is left. An automaton is a start node, a partial transition function and the outputs
  attached to each node.
\<close>

datatype ia_eudoxus_command =
  IA_EUDOXUS_CMD_CONTINUE | IA_EUDOXUS_CMD_STOP | IA_EUDOXUS_CMD_ERROR

datatype ia_eudoxus_result =
    IA_EUDOXUS_OK | IA_EUDOXUS_STOP | IA_EUDOXUS_ERROR | IA_EUDOXUS_END
  | IA_EUDOXUS_EINVAL | IA_EUDOXUS_EALLOC | IA_EUDOXUS_EINCOMPAT | IA_EUDOXUS_EINSANE

record ia_eudoxus =
  start_node :: nat
  next_node :: "nat \<Rightarrow> char \<Rightarrow> nat option"
  node_outputs :: "nat \<Rightarrow> string list"

text \<open>
  An execution state: the automaton, the current node and the part of the current input
  that is not consumed yet.
\<close>

record ia_eudoxus_state =
  automaton :: ia_eudoxus
  node :: nat
  input_location :: string

text \<open>
  Modelled from the spec: the outputs of a node are reported to the callback one by one;
  the first answer other than continue ends the report.
\<close>

fun ia_output ::
  "(string \<Rightarrow> 'cb \<Rightarrow> ia_eudoxus_command \<times> 'cb) \<Rightarrow> string list \<Rightarrow> 'cb
    \<Rightarrow> ia_eudoxus_command \<times> 'cb" where
  "ia_output cb [] d = (IA_EUDOXUS_CMD_CONTINUE, d)"
| "ia_output cb (out # outs) d =
     (case cb out d of
        (IA_EUDOXUS_CMD_CONTINUE, d') \<Rightarrow> ia_output cb outs d'
      | (IA_EUDOXUS_CMD_STOP, d') \<Rightarrow> (IA_EUDOXUS_CMD_STOP, d')
      | (IA_EUDOXUS_CMD_ERROR, d') \<Rightarrow> (IA_EUDOXUS_CMD_ERROR, d'))"

text \<open>
  Modelled from the spec: one scan pass. Each byte moves the automaton along an edge and
  reports the outputs of the node entered; a byte without an edge is the end of the
  automaton; the end of the input is success.
\<close>

fun ia_run ::
  "ia_eudoxus \<Rightarrow> (string \<Rightarrow> 'cb \<Rightarrow> ia_eudoxus_command \<times> 'cb) \<Rightarrow> nat \<Rightarrow> string \<Rightarrow> 'cb
    \<Rightarrow> ia_eudoxus_result \<times> nat \<times> string \<times> 'cb" where
  "ia_run a cb n [] d = (IA_EUDOXUS_OK, n, [], d)"
| "ia_run a cb n (c # rest) d =
     (case next_node a n c of
        None \<Rightarrow> (IA_EUDOXUS_END, n, c # rest, d)
      | Some n' \<Rightarrow>
          (case ia_output cb (node_outputs a n') d of
             (IA_EUDOXUS_CMD_CONTINUE, d') \<Rightarrow> ia_run a cb n' rest d'
           | (IA_EUDOXUS_CMD_STOP, d') \<Rightarrow> (IA_EUDOXUS_STOP, n', rest, d')
           | (IA_EUDOXUS_CMD_ERROR, d') \<Rightarrow> (IA_EUDOXUS_ERROR, n', rest, d')))"

text \<open>
  Modelled from the spec: \<open>ia_eudoxus_execute(state, input, input_length)\<close> on the table of
  live execution states. A null or dead state is an invalid argument; a null input resumes
  the previous input where the last pass stopped. The callback and its data, which the
  library keeps from \<open>ia_eudoxus_create_state\<close> on, are passed at each call.
\<close>

definition ia_eudoxus_execute ::
  "(string \<Rightarrow> 'cb \<Rightarrow> ia_eudoxus_command \<times> 'cb) \<Rightarrow> (nat \<rightharpoonup> ia_eudoxus_state) \<Rightarrow> nat option
    \<Rightarrow> string option \<Rightarrow> 'cb \<Rightarrow> ia_eudoxus_result \<times> (nat \<rightharpoonup> ia_eudoxus_state) \<times> 'cb" where
  "ia_eudoxus_execute cb states state input d =
     (case state of
        None \<Rightarrow> (IA_EUDOXUS_EINVAL, states, d)
      | Some h \<Rightarrow>
          (case states h of
             None \<Rightarrow> (IA_EUDOXUS_EINVAL, states, d)
           | Some st \<Rightarrow>
               (case ia_run (automaton st) cb (node st)
                       (case input of Some i \<Rightarrow> i | None \<Rightarrow> input_location st) d of
                  (r, n, rest, d') \<Rightarrow>
                    (r, states(h \<mapsto> st\<lparr>node := n, input_location := rest\<rparr>), d'))))"

section \<open>The Eudoxus operator module\<close>

text \<open>
  The callback data of a match (\<open>ee_callback_data_t\<close>): the capture collection, a pointer
  that may be null, and the 32-bit match length. The transaction pointer is the
  transaction at hand.
\<close>

record ee_callback_data =
  capture :: "nat option"
  match_len :: "32 word"

text \<open>The data kept between calls (\<open>ee_tx_data_t\<close>).\<close>

record ee_tx_data =
  eudoxus_state :: "nat option"
  ee_cbdata :: ee_callback_data
  end_of_automata :: bool

text \<open>The data of an operator instance (\<open>ee_operator_data_t\<close>).\<close>

record ee_operator_data =
  op_id :: string
  eudoxus :: ia_eudoxus

text \<open>
  The services that the module calls and that can fail. Their outcome is a parameter of
  the model, fixed for one call of an operator or handler: the capture and field
  constructors used by the match callback, the creation of an execution state (which on
  failure may or may not leave a state behind), the allocations from the transaction's
  pool (with the content of the fresh, uninitialised \<open>match_len\<close>), and the hash and
  module-data services of the transaction.
\<close>

record ee_env =
  capture_clear_rc :: ib_status
  bytestr_dup_rc :: ib_status
  field_create_rc :: ib_status
  capture_set_rc :: ib_status
  create_state_rc :: ia_eudoxus_result
  create_state_leaves_state :: bool
  alloc_data_ok :: bool
  alloc_cbdata_ok :: bool
  uninit_match_len :: "32 word"
  hash_create_rc :: ib_status
  set_module_data_rc :: ib_status
  hash_set_rc :: ib_status
  mpool_lite_create_rc :: ib_status
  iterator_create_ok :: bool

text \<open>
  The part of the world that the operators touch: the live automaton execution states with
  the next free handle, and of the transaction the capture collections, the memory of
  \<open>ee_tx_data_t\<close> objects with the next free address, and the module-keyed store. A slot of
  that store is unset, set to null, or set to a hash from instance ids to addresses.
\<close>

record ee_world =
  ia_states :: "nat \<rightharpoonup> ia_eudoxus_state"
  next_handle :: nat
  captures :: "nat \<Rightarrow> (nat \<rightharpoonup> string)"
  tx_mem :: "nat \<rightharpoonup> ee_tx_data"
  next_addr :: nat
  tx_module_data :: "nat \<Rightarrow> (string \<times> nat) list option option"

text \<open>\<open>ee_first_match_callback\<close>; the data it works on are the callback data and the captures.\<close>

definition ee_first_match_callback ::
  "ee_env \<Rightarrow> string \<Rightarrow> ee_callback_data \<times> (nat \<Rightarrow> (nat \<rightharpoonup> string))
    \<Rightarrow> ia_eudoxus_command \<times> ee_callback_data \<times> (nat \<Rightarrow> (nat \<rightharpoonup> string))" where
  "ee_first_match_callback env output d =
     (case d of (cbd, caps) \<Rightarrow>
        if match_len cbd > 0 then
          (IA_EUDOXUS_CMD_CONTINUE, cbd\<lparr>match_len := 0\<rparr>, caps)
        else
          (let cbd' = cbd\<lparr>match_len := of_nat (length output)\<rparr> in
           case capture cbd of
             None \<Rightarrow> (IA_EUDOXUS_CMD_STOP, cbd', caps)
           | Some c \<Rightarrow>
               if capture_clear_rc env \<noteq> IB_OK then (IA_EUDOXUS_CMD_ERROR, cbd', caps)
               else if bytestr_dup_rc env \<noteq> IB_OK then
                 (IA_EUDOXUS_CMD_ERROR, cbd', caps(c := Map.empty))
               else if field_create_rc env \<noteq> IB_OK then
                 (IA_EUDOXUS_CMD_ERROR, cbd', caps(c := Map.empty))
               else if capture_set_rc env \<noteq> IB_OK then
                 (IA_EUDOXUS_CMD_ERROR, cbd', caps(c := Map.empty))
               else (IA_EUDOXUS_CMD_STOP, cbd', caps(c := [0 \<mapsto> output]))))"

text \<open>
  The loop of \<open>ee_operator_execute_common\<close>: execute the automaton; on a stop in full-match
  mode with a match length other than the input length, execute again with a null input.
\<close>

function ee_common_loop ::
  "ee_env \<Rightarrow> bool \<Rightarrow> nat \<Rightarrow> string option \<Rightarrow> ee_tx_data \<Rightarrow> ee_world
    \<Rightarrow> ib_status \<times> int \<times> ee_tx_data \<times> ee_world" where
  "ee_common_loop env full_match input_len input data w =
     (case ia_eudoxus_execute (ee_first_match_callback env) (ia_states w) (eudoxus_state data)
             input (ee_cbdata data, captures w) of
        (ia_rc, states', cbd', caps') \<Rightarrow>
          (let data' = data\<lparr>ee_cbdata := cbd'\<rparr>;
               w' = w\<lparr>ia_states := states', captures := caps'\<rparr>
           in if ia_rc = IA_EUDOXUS_STOP then
                (if full_match then
                   (if unat (match_len cbd') = input_len then (IB_OK, 1, data', w')
                    else ee_common_loop env full_match input_len None data' w')
                 else (IB_OK, 1, data', w'))
              else if ia_rc = IA_EUDOXUS_END then
                (IB_OK, 0, data'\<lparr>end_of_automata := True\<rparr>, w')
              else if ia_rc \<noteq> IA_EUDOXUS_OK then (IB_EUNKNOWN, 0, data', w')
              else (IB_OK, 0, data', w')))"
  by pat_completeness auto

text \<open>
  What is left of the input at hand: the measure that shows that the loop ends. Each pass
  that stops has consumed at least one byte.
\<close>

definition pending_input :: "string option \<Rightarrow> ee_tx_data \<Rightarrow> ee_world \<Rightarrow> nat" where
  "pending_input input data w =
     (case input of
        Some i \<Rightarrow> Suc (length i)
      | None \<Rightarrow>
          (case eudoxus_state data of
             None \<Rightarrow> 0
           | Some h \<Rightarrow>
               (case ia_states w h of None \<Rightarrow> 0 | Some st \<Rightarrow> length (input_location st))))"

lemma ia_run_stop_shorter:
  "ia_run a cb n inp d = (IA_EUDOXUS_STOP, n', rest, d') \<Longrightarrow> length rest < length inp"
proof (induction inp arbitrary: n d)
  case Nil
  then show ?case by simp
next
  case (Cons c cs)
  then show ?case
    by (fastforce split: option.splits prod.splits ia_eudoxus_command.splits)
qed

lemma execute_stop_pending:
  assumes "ia_eudoxus_execute cb (ia_states w) (eudoxus_state data) input d
             = (IA_EUDOXUS_STOP, states', d')"
  shows "pending_input None (data\<lparr>ee_cbdata := x\<rparr>)
            (w\<lparr>ia_states := states', captures := y\<rparr>)
           < pending_input input data w"
  using assms
  by (auto simp: ia_eudoxus_execute_def pending_input_def split: option.splits prod.splits
           dest!: ia_run_stop_shorter)

termination ee_common_loop
proof (relation
    "measure (\<lambda>(env, full_match, input_len, input, data, w). pending_input input data w)")
  show "wf (measure
    (\<lambda>(env, full_match, input_len, input, data, w). pending_input input data w))"
    by simp
next
  fix env :: ee_env and full_match :: bool and input_len :: nat and input :: "string option"
    and data :: ee_tx_data and w :: ee_world and x y xa ya xb yb xc xd
  assume "(x, y) = ia_eudoxus_execute (ee_first_match_callback env) (ia_states w)
            (eudoxus_state data) input (ee_cbdata data, captures w)"
    and "(xa, ya) = y" and "(xb, yb) = ya" and xc: "xc = data\<lparr>ee_cbdata := xb\<rparr>"
    and xd: "xd = w\<lparr>ia_states := xa, captures := yb\<rparr>" and "x = IA_EUDOXUS_STOP"
  then have "ia_eudoxus_execute (ee_first_match_callback env) (ia_states w)
            (eudoxus_state data) input (ee_cbdata data, captures w)
              = (IA_EUDOXUS_STOP, xa, (xb, yb))"
    by simp
  from execute_stop_pending[OF this]
  show "((env, full_match, input_len, None, xc, xd),
          env, full_match, input_len, input, data, w)
         \<in> measure
             (\<lambda>(env, full_match, input_len, input, data, w). pending_input input data w)"
    using xc xd by simp
qed

declare ee_common_loop.simps [simp del]

text \<open>
  \<open>ee_operator_execute_common\<close>: the result starts at 0; the field type selects the input;
  a latched end of the automaton makes the call a no-operation; else the loop runs. The
  data are passed by reference in the source, here in and out.
\<close>

definition ee_operator_execute_common ::
  "ee_env \<Rightarrow> ee_world \<Rightarrow> ee_tx_data \<Rightarrow> ib_field \<Rightarrow> bool
    \<Rightarrow> ib_status \<times> int \<times> ee_tx_data \<times> ee_world" where
  "ee_operator_execute_common env w data field full_match =
     (if ftype field = IB_FTYPE_NULSTR then
        (if fvalue_rc field \<noteq> IB_OK then (fvalue_rc field, 0, data, w)
         else if end_of_automata data then (IB_OK, 0, data, w)
         else ee_common_loop env full_match (length (c_strlen_prefix (fvalue field)))
                (Some (c_strlen_prefix (fvalue field))) data w)
      else if ftype field = IB_FTYPE_BYTESTR then
        (if fvalue_rc field \<noteq> IB_OK then (fvalue_rc field, 0, data, w)
         else if end_of_automata data then (IB_OK, 0, data, w)
         else ee_common_loop env full_match (length (fvalue field))
                (Some (fvalue field)) data w)
      else if ftype field = IB_FTYPE_LIST then (IB_ENOTIMPL, 0, data, w)
      else (IB_EINVAL, 0, data, w))"

text \<open>
  Modelled from the spec: creating and destroying an execution state. A created state
  starts at the start node with no input; on failure the library may leave a state
  behind, which the callers destroy. Destroying a null state does nothing.
\<close>

definition ia_eudoxus_create_state ::
  "ee_env \<Rightarrow> ee_world \<Rightarrow> ia_eudoxus \<Rightarrow> ia_eudoxus_result \<times> nat option \<times> ee_world" where
  "ia_eudoxus_create_state env w a =
     (if create_state_rc env = IA_EUDOXUS_OK \<or> create_state_leaves_state env then
        (create_state_rc env, Some (next_handle w),
         w\<lparr>ia_states := (ia_states w)(next_handle w \<mapsto>
               \<lparr>automaton = a, node = start_node a, input_location = []\<rparr>),
           next_handle := Suc (next_handle w)\<rparr>)
      else (create_state_rc env, None, w))"

definition ia_eudoxus_destroy_state :: "ee_world \<Rightarrow> nat option \<Rightarrow> ee_world" where
  "ia_eudoxus_destroy_state w state =
     (case state of
        None \<Rightarrow> w
      | Some h \<Rightarrow> w\<lparr>ia_states := (ia_states w)(h := None)\<rparr>)"

text \<open>
  \<open>ee_match_operator_execute_nonstream\<close>: data for this use only, with a match length of 0.
\<close>

definition ee_match_operator_execute_nonstream ::
  "ee_env \<Rightarrow> ee_world \<Rightarrow> ee_operator_data \<Rightarrow> ib_field \<Rightarrow> nat option \<Rightarrow> bool
    \<Rightarrow> ib_status \<times> int \<times> ee_world" where
  "ee_match_operator_execute_nonstream env w instance_data field capt full_match =
     (let local_cbdata = \<lparr>capture = capt, match_len = 0\<rparr> in
      case ia_eudoxus_create_state env w (eudoxus instance_data) of
        (ia_rc, state, w1) \<Rightarrow>
          if ia_rc \<noteq> IA_EUDOXUS_OK then
            (IB_EINVAL, 0, (if state \<noteq> None then ia_eudoxus_destroy_state w1 state else w1))
          else
            (let local_data = \<lparr>eudoxus_state = state, ee_cbdata = local_cbdata,
                                end_of_automata = False\<rparr>
             in case ee_operator_execute_common env w1 local_data field full_match of
                  (rc, result, local_data', w2) \<Rightarrow>
                    (rc, result, ia_eudoxus_destroy_state w2 (eudoxus_state local_data'))))"

definition ee_operator_execute ::
  "ee_env \<Rightarrow> ee_world \<Rightarrow> ee_operator_data \<Rightarrow> ib_field \<Rightarrow> nat option
    \<Rightarrow> ib_status \<times> int \<times> ee_world" where
  "ee_operator_execute env w instance_data field capt =
     ee_match_operator_execute_nonstream env w instance_data field capt False"

definition ee_match_operator_execute ::
  "ee_env \<Rightarrow> ee_world \<Rightarrow> ee_operator_data \<Rightarrow> ib_field \<Rightarrow> nat option
    \<Rightarrow> ib_status \<times> int \<times> ee_world" where
  "ee_match_operator_execute env w instance_data field capt =
     ee_match_operator_execute_nonstream env w instance_data field capt True"

subsection \<open>Per-transaction data of the streaming operator\<close>

definition IB_UUID_LENGTH :: nat where
  "IB_UUID_LENGTH = 37"

text \<open>
  Modelled from the spec: the hash service of the engine is not part of the sources at
  hand. A hash is an associative store; a lookup of a missing key is not-found and a store
  replaces the entry of the key.
\<close>

definition ib_hash_get_ex :: "(string \<times> 'v) list \<Rightarrow> string \<Rightarrow> ib_status + 'v" where
  "ib_hash_get_ex hash key =
     (case map_of hash key of None \<Rightarrow> Inl IB_ENOENT | Some v \<Rightarrow> Inr v)"

definition ib_hash_set_ex :: "(string \<times> 'v) list \<Rightarrow> string \<Rightarrow> 'v \<Rightarrow> (string \<times> 'v) list" where
  "ib_hash_set_ex hash key v = (key, v) # filter (\<lambda>e. fst e \<noteq> key) hash"

text \<open>
  \<open>get_or_create_operator_data_hash\<close>: the hash of module \<open>m\<close> in the transaction, created
  and stored on first use.
\<close>

definition get_or_create_operator_data_hash ::
  "ee_env \<Rightarrow> ee_world \<Rightarrow> nat \<Rightarrow> (ib_status + (string \<times> nat) list) \<times> ee_world" where
  "get_or_create_operator_data_hash env w m =
     (case tx_module_data w m of
        Some (Some hash) \<Rightarrow> (Inr hash, w)
      | _ \<Rightarrow>
          if hash_create_rc env \<noteq> IB_OK then (Inl (hash_create_rc env), w)
          else if set_module_data_rc env \<noteq> IB_OK then (Inl (set_module_data_rc env), w)
          else (Inr [], w\<lparr>tx_module_data := (tx_module_data w)(m := Some (Some []))\<rparr>))"

text \<open>\<open>get_ee_tx_data\<close>: the address stored under the id of the operator instance.\<close>

definition get_ee_tx_data ::
  "ee_env \<Rightarrow> ee_world \<Rightarrow> nat \<Rightarrow> ee_operator_data \<Rightarrow> (ib_status + nat) \<times> ee_world" where
  "get_ee_tx_data env w m instance_data =
     (case get_or_create_operator_data_hash env w m of
        (Inl rc, w1) \<Rightarrow> (Inl rc, w1)
      | (Inr hash, w1) \<Rightarrow>
          (ib_hash_get_ex hash (take (IB_UUID_LENGTH - 1) (op_id instance_data)), w1))"

text \<open>\<open>set_ee_tx_data\<close>: store an address under the id of the operator instance.\<close>

definition set_ee_tx_data ::
  "ee_env \<Rightarrow> ee_world \<Rightarrow> nat \<Rightarrow> ee_operator_data \<Rightarrow> nat \<Rightarrow> ib_status \<times> ee_world" where
  "set_ee_tx_data env w m instance_data tx_data =
     (case get_or_create_operator_data_hash env w m of
        (Inl rc, w1) \<Rightarrow> (rc, w1)
      | (Inr hash, w1) \<Rightarrow>
          if hash_set_rc env \<noteq> IB_OK then (hash_set_rc env, w1)
          else (IB_OK,
                w1\<lparr>tx_module_data := (tx_module_data w1)(m := Some (Some
                     (ib_hash_set_ex hash (take (IB_UUID_LENGTH - 1) (op_id instance_data))
                        tx_data)))\<rparr>))"

text \<open>
  The common execution on data that live in the transaction's memory at address \<open>p\<close>: what
  the call changes in the data is written to that address. No result stands for a
  dereference of a pointer that is null or points to no object.
\<close>

definition ee_execute_common_at ::
  "ee_env \<Rightarrow> ee_world \<Rightarrow> nat \<Rightarrow> ib_field \<Rightarrow> bool \<Rightarrow> (ib_status \<times> int \<times> ee_world) option" where
  "ee_execute_common_at env w p field full_match =
     (case tx_mem w p of
        None \<Rightarrow> None
      | Some data \<Rightarrow>
          (case ee_operator_execute_common env w data field full_match of
             (rc, result, data', w') \<Rightarrow>
               Some (rc, result, w'\<lparr>tx_mem := (tx_mem w')(p \<mapsto> data')\<rparr>)))"

text \<open>
  \<open>ee_operator_execute_stream\<close>. When no data are found they are created: the two blocks
  come from the transaction's pool, only the second is checked, and of the callback data
  only the transaction and the capture are assigned, so that \<open>match_len\<close> keeps what the
  block held. The status of \<open>set_ee_tx_data\<close> is dropped.
\<close>

definition ee_operator_execute_stream ::
  "ee_env \<Rightarrow> ee_world \<Rightarrow> nat \<Rightarrow> ee_operator_data \<Rightarrow> ib_field \<Rightarrow> nat option
    \<Rightarrow> (ib_status \<times> int \<times> ee_world) option" where
  "ee_operator_execute_stream env w m instance_data field capt =
     (case get_ee_tx_data env w m instance_data of
        (Inr p, w1) \<Rightarrow> ee_execute_common_at env w1 p field False
      | (Inl rc, w1) \<Rightarrow>
          if rc = IB_ENOENT then
            (let w2 = (if alloc_data_ok env then w1\<lparr>next_addr := Suc (next_addr w1)\<rparr> else w1)
             in if \<not> alloc_cbdata_ok env then Some (IB_EALLOC, 0, w2)
                else if \<not> alloc_data_ok env then None
                else
                  (case ia_eudoxus_create_state env w2 (eudoxus instance_data) of
                     (ia_rc, state, w3) \<Rightarrow>
                       if ia_rc \<noteq> IA_EUDOXUS_OK then
                         Some (IB_EINVAL, 0,
                               (if state \<noteq> None then ia_eudoxus_destroy_state w3 state
                                else w3))
                       else
                         (let data = \<lparr>eudoxus_state = state,
                                      ee_cbdata = \<lparr>capture = capt,
                                                    match_len = uninit_match_len env\<rparr>,
                                      end_of_automata = False\<rparr>;
                              w4 = w3\<lparr>tx_mem := (tx_mem w3)(next_addr w1 \<mapsto> data)\<rparr>;
                              w5 = snd (set_ee_tx_data env w4 m instance_data (next_addr w1))
                          in ee_execute_common_at env w5 (next_addr w1) field False)))
          else Some (rc, 0, w1))"

text \<open>
  \<open>ee_tx_finished_handler\<close>: the loop over the entries of the hash destroys the execution
  state of each entry and clears its pointer.
\<close>

definition ee_destroy_entry :: "ee_world \<Rightarrow> nat \<Rightarrow> ee_world" where
  "ee_destroy_entry w p =
     (case tx_mem w p of
        None \<Rightarrow> w
      | Some data \<Rightarrow>
          if eudoxus_state data \<noteq> None then
            (ia_eudoxus_destroy_state w (eudoxus_state data))
              \<lparr>tx_mem := (tx_mem w)(p \<mapsto> data\<lparr>eudoxus_state := None\<rparr>)\<rparr>
          else w)"

fun ee_destroy_all :: "ee_world \<Rightarrow> (string \<times> nat) list \<Rightarrow> ee_world" where
  "ee_destroy_all w [] = w"
| "ee_destroy_all w (e # es) = ee_destroy_all (ee_destroy_entry w (snd e)) es"

definition ee_tx_finished_handler :: "ee_env \<Rightarrow> ee_world \<Rightarrow> nat \<Rightarrow> ib_status \<times> ee_world" where
  "ee_tx_finished_handler env w m =
     (case tx_module_data w m of
        None \<Rightarrow> (IB_OK, w)
      | Some None \<Rightarrow> (IB_OK, w)
      | Some (Some hash) \<Rightarrow>
          if mpool_lite_create_rc env \<noteq> IB_OK then (mpool_lite_create_rc env, w)
          else if \<not> iterator_create_ok env then (IB_EALLOC, w)
          else (IB_OK, ee_destroy_all w hash))"

subsection \<open>The pattern table: the LoadEudoxus directive and operator creation\<close>

text \<open>
  Modelled from the spec: the hash of patterns is created by \<open>ib_hash_create_nocase\<close>, a
  service outside the sources at hand: its keys are compared without regard to the case of
  ASCII letters.
\<close>

definition ib_tolower :: "char \<Rightarrow> char" where
  "ib_tolower c =
     (case map_of (zip ''ABCDEFGHIJKLMNOPQRSTUVWXYZ'' ''abcdefghijklmnopqrstuvwxyz'') c of
        None \<Rightarrow> c
      | Some l \<Rightarrow> l)"

definition ib_hash_get_nocase :: "(string \<times> 'v) list \<Rightarrow> string \<Rightarrow> ib_status + 'v" where
  "ib_hash_get_nocase hash key =
     (case map_of (map (\<lambda>e. (map ib_tolower (fst e), snd e)) hash) (map ib_tolower key) of
        None \<Rightarrow> Inl IB_ENOENT
      | Some v \<Rightarrow> Inr v)"

definition ib_hash_set_nocase ::
  "(string \<times> 'v) list \<Rightarrow> string \<Rightarrow> 'v \<Rightarrow> (string \<times> 'v) list" where
  "ib_hash_set_nocase hash key v =
     (key, v) # filter (\<lambda>e. map ib_tolower (fst e) \<noteq> map ib_tolower key) hash"

text \<open>
  The engine as the module sees it at configuration time: the module's configuration
  (\<open>ee_config_t\<close>, the hash of patterns) and the automata registered for destruction with
  the main memory manager.
\<close>

record ee_engine =
  eudoxus_pattern_hash :: "(string \<times> ia_eudoxus) list"
  main_cleanups :: "ia_eudoxus list"

text \<open>
  The services behind the directive: the resolution of a file name against the current
  configuration file, \<open>access\<close>, the loader of compiled automata, the registration of a
  cleanup and the store into the hash.
\<close>

record ee_load_env =
  relative_file :: "string \<Rightarrow> string \<Rightarrow> string"
  file_readable :: "string \<Rightarrow> bool"
  create_from_path :: "string \<Rightarrow> ia_eudoxus_result \<times> ia_eudoxus"
  register_cleanup_rc :: ib_status
  pattern_hash_set_rc :: ib_status

text \<open>\<open>load_eudoxus_pattern_param2\<close>.\<close>

definition load_eudoxus_pattern_param2 ::
  "ee_load_env \<Rightarrow> ee_engine \<Rightarrow> string \<Rightarrow> string \<Rightarrow> string \<Rightarrow> ib_status \<times> ee_engine" where
  "load_eudoxus_pattern_param2 env ib curr_file pattern_name filename =
     (case ib_hash_get_nocase (eudoxus_pattern_hash ib) pattern_name of
        Inr tmp \<Rightarrow> (IB_EEXIST, ib)
      | Inl rc \<Rightarrow>
          (let automata_file = relative_file env curr_file filename in
           if \<not> file_readable env automata_file then (IB_EINVAL, ib)
           else
             (case create_from_path env automata_file of
                (ia_rc, a) \<Rightarrow>
                  if ia_rc \<noteq> IA_EUDOXUS_OK then (IB_EINVAL, ib)
                  else if register_cleanup_rc env \<noteq> IB_OK then (register_cleanup_rc env, ib)
                  else if pattern_hash_set_rc env \<noteq> IB_OK then
                    (pattern_hash_set_rc env, ib\<lparr>main_cleanups := a # main_cleanups ib\<rparr>)
                  else
                    (IB_OK,
                     ib\<lparr>main_cleanups := a # main_cleanups ib,
                        eudoxus_pattern_hash :=
                          ib_hash_set_nocase (eudoxus_pattern_hash ib) pattern_name a\<rparr>))))"

text \<open>
  \<open>ee_operator_create\<close>, with the services it calls: the lookup of the module object, the
  allocation of the instance data and the creation of a UUID. A failed lookup of the
  pattern returns its status, not-found or another, after a log message.
\<close>

record ee_create_env =
  module_get_rc :: ib_status
  alloc_operator_data_ok :: bool
  uuid_create_rc :: ib_status
  uuid :: string

definition ee_operator_create ::
  "ee_create_env \<Rightarrow> ee_engine \<Rightarrow> string \<Rightarrow> ib_status + ee_operator_data" where
  "ee_operator_create env ib parameters =
     (if module_get_rc env \<noteq> IB_OK then Inl (module_get_rc env)
      else if \<not> alloc_operator_data_ok env then Inl IB_EALLOC
      else
        (case ib_hash_get_nocase (eudoxus_pattern_hash ib) parameters of
           Inl rc \<Rightarrow> (if rc = IB_ENOENT then Inl rc else Inl rc)
         | Inr a \<Rightarrow>
             if uuid_create_rc env \<noteq> IB_OK then Inl (uuid_create_rc env)
             else Inr \<lparr>op_id = uuid env, eudoxus = a\<rparr>))"

section \<open>The Lua module bridge\<close>

text \<open>
  The Lua runtime is seen through the answers to the queries that the bridge makes: the
  type of the global \<open>modlua\<close> and of its members, the outcome of the protected calls and the
  type of what they return. With the outcome of the engine services that the bridge calls
  (the module configuration, the pool of runtimes, the reloading of contexts) these
  answers are parameters of the model, fixed for one call.
\<close>

datatype lua_type = LUA_TNIL | LUA_TBOOLEAN | LUA_TTABLE | LUA_TFUNCTION | LUA_TOTHER

record modlua_env =
  module_config_rc :: ib_status
  acquirestate_rc :: ib_status
  releasestate_rc :: ib_status
  checkstack_ok :: bool
  has_module_global :: lua_type
  has_module :: lua_type
  has_module_pcall_ok :: bool
  has_module_result :: "bool option"
  reload_ctx_main_rc :: ib_status
  reload_ctx_except_main_rc :: ib_status
  modlua_global :: lua_type
  dispatch_module :: lua_type
  dispatch_module_logevent :: lua_type
  get_callbacks :: lua_type
  get_callbacks_pcall_rc :: "nat \<Rightarrow> ib_status"
  get_callbacks_result :: "nat \<Rightarrow> lua_type"
  get_callbacks_logevents :: lua_type
  get_callbacks_logevents_pcall_rc :: ib_status
  get_callbacks_logevents_result :: lua_type
  handler_pcall_rc :: ib_status

text \<open>The calls that a dispatch function makes to the pool of Lua runtimes.\<close>

datatype pool_call = Acquire | Release

text \<open>\<open>modlua_push_lua_handler\<close>: the handler table of the module for a state.\<close>

definition modlua_push_lua_handler :: "modlua_env \<Rightarrow> nat \<Rightarrow> ib_status" where
  "modlua_push_lua_handler env state =
     (if modlua_global env = LUA_TNIL then IB_EINVAL
      else if modlua_global env \<noteq> LUA_TTABLE then IB_EINVAL
      else if get_callbacks env = LUA_TNIL then IB_EINVAL
      else if get_callbacks env \<noteq> LUA_TFUNCTION then IB_EINVAL
      else if get_callbacks_pcall_rc env state \<noteq> IB_OK then get_callbacks_pcall_rc env state
      else if get_callbacks_result env state = LUA_TTABLE then IB_OK
      else if get_callbacks_result env state = LUA_TNIL then IB_ENOENT
      else IB_EINVAL)"

definition modlua_push_lua_handler_logevents :: "modlua_env \<Rightarrow> ib_status" where
  "modlua_push_lua_handler_logevents env =
     (if modlua_global env = LUA_TNIL then IB_EINVAL
      else if modlua_global env \<noteq> LUA_TTABLE then IB_EINVAL
      else if get_callbacks_logevents env = LUA_TNIL then IB_EINVAL
      else if get_callbacks_logevents env \<noteq> LUA_TFUNCTION then IB_EINVAL
      else if get_callbacks_logevents_pcall_rc env \<noteq> IB_OK
        then get_callbacks_logevents_pcall_rc env
      else if get_callbacks_logevents_result env = LUA_TTABLE then IB_OK
      else if get_callbacks_logevents_result env = LUA_TNIL then IB_ENOENT
      else IB_EINVAL)"

text \<open>\<open>modlua_push_dispatcher\<close>: the generic dispatcher \<open>modlua.dispatch_module\<close>.\<close>

definition modlua_push_dispatcher :: "modlua_env \<Rightarrow> ib_status" where
  "modlua_push_dispatcher env =
     (if modlua_global env = LUA_TNIL then IB_EINVAL
      else if modlua_global env \<noteq> LUA_TTABLE then IB_EINVAL
      else if dispatch_module env = LUA_TNIL then IB_EINVAL
      else if dispatch_module env \<noteq> LUA_TFUNCTION then IB_EINVAL
      else IB_OK)"

text \<open>The probes: the handler is pushed and, when that succeeds, popped again.\<close>

definition modlua_has_callback_logevents :: "modlua_env \<Rightarrow> ib_status" where
  "modlua_has_callback_logevents env = modlua_push_lua_handler_logevents env"

definition module_has_callback :: "modlua_env \<Rightarrow> nat \<Rightarrow> ib_status" where
  "module_has_callback env state = modlua_push_lua_handler env state"

definition modlua_callback_setup :: "modlua_env \<Rightarrow> nat \<Rightarrow> ib_status" where
  "modlua_callback_setup env state =
     (if modlua_push_dispatcher env \<noteq> IB_OK then modlua_push_dispatcher env
      else if modlua_push_lua_handler env state \<noteq> IB_OK then modlua_push_lua_handler env state
      else IB_OK)"

definition modlua_contains_module :: "modlua_env \<Rightarrow> bool" where
  "modlua_contains_module env =
     (if has_module_global env = LUA_TNIL then False
      else if has_module_global env \<noteq> LUA_TTABLE then False
      else if has_module env = LUA_TNIL then False
      else if has_module env \<noteq> LUA_TFUNCTION then False
      else if \<not> has_module_pcall_ok env then False
      else (case has_module_result env of None \<Rightarrow> False | Some result \<Rightarrow> result))"

text \<open>
  The code at the label \<open>exit\<close> of the dispatch functions, reached after a successful
  acquire: the runtime is released, and a failure of the release is returned when nothing
  failed before.
\<close>

definition modlua_exit :: "modlua_env \<Rightarrow> ib_status \<Rightarrow> ib_status \<times> pool_call list" where
  "modlua_exit env rc =
     (if releasestate_rc env \<noteq> IB_OK \<and> rc = IB_OK then (releasestate_rc env, [Acquire, Release])
      else (rc, [Acquire, Release]))"

text \<open>\<open>modlua_logevent\<close>: the status and the calls made to the pool.\<close>

definition modlua_logevent :: "modlua_env \<Rightarrow> ib_status \<times> pool_call list" where
  "modlua_logevent env =
     (if module_config_rc env \<noteq> IB_OK then (module_config_rc env, [])
      else if acquirestate_rc env \<noteq> IB_OK then (acquirestate_rc env, [])
      else if \<not> checkstack_ok env then (IB_EOTHER, [Acquire])
      else if \<not> modlua_contains_module env \<and> reload_ctx_main_rc env \<noteq> IB_OK
        then modlua_exit env (reload_ctx_main_rc env)
      else if reload_ctx_except_main_rc env \<noteq> IB_OK
        then modlua_exit env (reload_ctx_except_main_rc env)
      else if modlua_global env = LUA_TNIL then (IB_EINVAL, [Acquire])
      else if modlua_global env \<noteq> LUA_TTABLE then (IB_EINVAL, [Acquire])
      else if dispatch_module_logevent env = LUA_TNIL then (IB_EINVAL, [Acquire])
      else if dispatch_module_logevent env \<noteq> LUA_TFUNCTION then (IB_EINVAL, [Acquire])
      else if modlua_push_lua_handler_logevents env \<noteq> IB_OK
        then modlua_exit env (modlua_push_lua_handler_logevents env)
      else if handler_pcall_rc env \<noteq> IB_OK then modlua_exit env (handler_pcall_rc env)
      else modlua_exit env IB_OK)"

text \<open>\<open>modlua_null\<close> and \<open>modlua_ctx\<close> reload the contexts of the module before the dispatch.\<close>

definition modlua_null :: "modlua_env \<Rightarrow> nat \<Rightarrow> ib_status \<times> pool_call list" where
  "modlua_null env state =
     (if module_config_rc env \<noteq> IB_OK then (module_config_rc env, [])
      else if acquirestate_rc env \<noteq> IB_OK then (acquirestate_rc env, [])
      else if \<not> modlua_contains_module env \<and> reload_ctx_main_rc env \<noteq> IB_OK
        then modlua_exit env (reload_ctx_main_rc env)
      else if reload_ctx_except_main_rc env \<noteq> IB_OK
        then modlua_exit env (reload_ctx_except_main_rc env)
      else if modlua_callback_setup env state \<noteq> IB_OK
        then modlua_exit env (modlua_callback_setup env state)
      else if handler_pcall_rc env \<noteq> IB_OK then modlua_exit env (handler_pcall_rc env)
      else modlua_exit env IB_OK)"

definition modlua_ctx :: "modlua_env \<Rightarrow> nat \<Rightarrow> ib_status \<times> pool_call list" where
  "modlua_ctx env state =
     (if module_config_rc env \<noteq> IB_OK then (module_config_rc env, [])
      else if acquirestate_rc env \<noteq> IB_OK then (acquirestate_rc env, [])
      else if \<not> modlua_contains_module env \<and> reload_ctx_main_rc env \<noteq> IB_OK
        then modlua_exit env (reload_ctx_main_rc env)
      else if reload_ctx_except_main_rc env \<noteq> IB_OK
        then modlua_exit env (reload_ctx_except_main_rc env)
      else if modlua_callback_setup env state \<noteq> IB_OK
        then modlua_exit env (modlua_callback_setup env state)
      else if handler_pcall_rc env \<noteq> IB_OK then modlua_exit env (handler_pcall_rc env)
      else modlua_exit env IB_OK)"

text \<open>
  The dispatch functions of connections, transactions, transaction data, headers and
  request and response lines differ in the arguments that they push for the dispatcher.
\<close>

definition modlua_conn :: "modlua_env \<Rightarrow> nat \<Rightarrow> ib_status \<times> pool_call list" where
  "modlua_conn env state =
     (if module_config_rc env \<noteq> IB_OK then (module_config_rc env, [])
      else if acquirestate_rc env \<noteq> IB_OK then (acquirestate_rc env, [])
      else if modlua_callback_setup env state \<noteq> IB_OK
        then modlua_exit env (modlua_callback_setup env state)
      else if handler_pcall_rc env \<noteq> IB_OK then modlua_exit env (handler_pcall_rc env)
      else modlua_exit env IB_OK)"

definition modlua_tx :: "modlua_env \<Rightarrow> nat \<Rightarrow> ib_status \<times> pool_call list" where
  "modlua_tx env state =
     (if module_config_rc env \<noteq> IB_OK then (module_config_rc env, [])
      else if acquirestate_rc env \<noteq> IB_OK then (acquirestate_rc env, [])
      else if modlua_callback_setup env state \<noteq> IB_OK
        then modlua_exit env (modlua_callback_setup env state)
      else if handler_pcall_rc env \<noteq> IB_OK then modlua_exit env (handler_pcall_rc env)
      else modlua_exit env IB_OK)"

definition modlua_txdata :: "modlua_env \<Rightarrow> nat \<Rightarrow> ib_status \<times> pool_call list" where
  "modlua_txdata env state =
     (if module_config_rc env \<noteq> IB_OK then (module_config_rc env, [])
      else if acquirestate_rc env \<noteq> IB_OK then (acquirestate_rc env, [])
      else if modlua_callback_setup env state \<noteq> IB_OK
        then modlua_exit env (modlua_callback_setup env state)
      else if handler_pcall_rc env \<noteq> IB_OK then modlua_exit env (handler_pcall_rc env)
      else modlua_exit env IB_OK)"

definition modlua_header :: "modlua_env \<Rightarrow> nat \<Rightarrow> ib_status \<times> pool_call list" where
  "modlua_header env state =
     (if module_config_rc env \<noteq> IB_OK then (module_config_rc env, [])
      else if acquirestate_rc env \<noteq> IB_OK then (acquirestate_rc env, [])
      else if modlua_callback_setup env state \<noteq> IB_OK
        then modlua_exit env (modlua_callback_setup env state)
      else if handler_pcall_rc env \<noteq> IB_OK then modlua_exit env (handler_pcall_rc env)
      else modlua_exit env IB_OK)"

definition modlua_reqline :: "modlua_env \<Rightarrow> nat \<Rightarrow> ib_status \<times> pool_call list" where
  "modlua_reqline env state =
     (if module_config_rc env \<noteq> IB_OK then (module_config_rc env, [])
      else if acquirestate_rc env \<noteq> IB_OK then (acquirestate_rc env, [])
      else if modlua_callback_setup env state \<noteq> IB_OK
        then modlua_exit env (modlua_callback_setup env state)
      else if handler_pcall_rc env \<noteq> IB_OK then modlua_exit env (handler_pcall_rc env)
      else modlua_exit env IB_OK)"

definition modlua_respline :: "modlua_env \<Rightarrow> nat \<Rightarrow> ib_status \<times> pool_call list" where
  "modlua_respline env state =
     (if module_config_rc env \<noteq> IB_OK then (module_config_rc env, [])
      else if acquirestate_rc env \<noteq> IB_OK then (acquirestate_rc env, [])
      else if modlua_callback_setup env state \<noteq> IB_OK
        then modlua_exit env (modlua_callback_setup env state)
      else if handler_pcall_rc env \<noteq> IB_OK then modlua_exit env (handler_pcall_rc env)
      else modlua_exit env IB_OK)"

subsection \<open>Wiring the callbacks of a Lua module\<close>


text \<open>The dispatch functions of the bridge, as values that a hook entry can hold.\<close>

datatype modlua_callback =
    Modlua_null | Modlua_ctx | Modlua_conn | Modlua_tx | Modlua_txdata | Modlua_reqline
  | Modlua_respline | Modlua_header | Modlua_logevent









text \<open>What runs when the engine calls a registered callback of the bridge for a state.\<close>

definition modlua_invoke :: "modlua_callback \<Rightarrow> modlua_env \<Rightarrow> nat \<Rightarrow> ib_status \<times> pool_call list" where
  "modlua_invoke cb env state =
     (case cb of
        Modlua_null \<Rightarrow> modlua_null env state
      | Modlua_ctx \<Rightarrow> modlua_ctx env state
      | Modlua_conn \<Rightarrow> modlua_conn env state
      | Modlua_tx \<Rightarrow> modlua_tx env state
      | Modlua_txdata \<Rightarrow> modlua_txdata env state
      | Modlua_reqline \<Rightarrow> modlua_reqline env state
      | Modlua_respline \<Rightarrow> modlua_respline env state
      | Modlua_header \<Rightarrow> modlua_header env state
      | Modlua_logevent \<Rightarrow> modlua_logevent env)"

section \<open>Sample automata, inputs and environments\<close>

text \<open>An automaton for the pattern GET, with the matched text as its output.\<close>

definition get_automaton :: ia_eudoxus where
  "get_automaton =
     \<lparr>start_node = 0,
      next_node = (\<lambda>n c. if n = 0 \<and> c = CHR ''G'' then Some 1
                         else if n = 1 \<and> c = CHR ''E'' then Some 2
                         else if n = 2 \<and> c = CHR ''T'' then Some 3
                         else None),
      node_outputs = (\<lambda>n. if n = 3 then [''GET''] else [])\<rparr>"

text \<open>An automaton for the patterns a, ab and abc.\<close>

definition abc_automaton :: ia_eudoxus where
  "abc_automaton =
     \<lparr>start_node = 0,
      next_node = (\<lambda>n c. if n = 0 \<and> c = CHR ''a'' then Some 1
                         else if n = 1 \<and> c = CHR ''b'' then Some 2
                         else if n = 2 \<and> c = CHR ''c'' then Some 3
                         else None),
      node_outputs = (\<lambda>n. if n = 1 then [''a''] else if n = 2 then [''ab'']
                           else if n = 3 then [''abc''] else [])\<rparr>"

text \<open>An environment in which every service succeeds and fresh memory holds zeros.\<close>

definition env_ok :: ee_env where
  "env_ok =
     \<lparr>capture_clear_rc = IB_OK, bytestr_dup_rc = IB_OK, field_create_rc = IB_OK,
      capture_set_rc = IB_OK, create_state_rc = IA_EUDOXUS_OK,
      create_state_leaves_state = False, alloc_data_ok = True, alloc_cbdata_ok = True,
      uninit_match_len = 0, hash_create_rc = IB_OK, set_module_data_rc = IB_OK,
      hash_set_rc = IB_OK, mpool_lite_create_rc = IB_OK, iterator_create_ok = True\<rparr>"

text \<open>A world at the start of a transaction: no execution state, no captures, no data.\<close>

definition world0 :: ee_world where
  "world0 =
     \<lparr>ia_states = Map.empty, next_handle = 0, captures = (\<lambda>c. Map.empty),
      tx_mem = Map.empty, next_addr = 0, tx_module_data = (\<lambda>m. None)\<rparr>"

definition bytestr_field :: "string \<Rightarrow> ib_field" where
  "bytestr_field s = \<lparr>ftype = IB_FTYPE_BYTESTR, fvalue_rc = IB_OK, fvalue = s\<rparr>"

definition get_op :: ee_operator_data where
  "get_op = \<lparr>op_id = ''6ba7b810-9dad-41d1-80b4-00c04fd430c8'', eudoxus = get_automaton\<rparr>"

definition abc_op :: ee_operator_data where
  "abc_op = \<lparr>op_id = ''6ba7b811-9dad-41d1-80b4-00c04fd430c8'', eudoxus = abc_automaton\<rparr>"

text \<open>The world once an execution state for an automaton exists, and fresh call data.\<close>

definition world1 :: "ia_eudoxus \<Rightarrow> ee_world" where
  "world1 a = snd (snd (ia_eudoxus_create_state env_ok world0 a))"

definition fresh_data :: "nat option \<Rightarrow> ee_tx_data" where
  "fresh_data capt =
     \<lparr>eudoxus_state = Some 0, ee_cbdata = \<lparr>capture = capt, match_len = 0\<rparr>,
      end_of_automata = False\<rparr>"

text \<open>The world after a streaming call, and its status and result.\<close>

definition feed ::
  "ee_env \<Rightarrow> ee_world \<Rightarrow> ee_operator_data \<Rightarrow> string \<Rightarrow> nat option \<Rightarrow> ee_world" where
  "feed env w instance_data s capt =
     (case ee_operator_execute_stream env w 0 instance_data (bytestr_field s) capt of
        None \<Rightarrow> w
      | Some r \<Rightarrow> snd (snd r))"

definition feed_result ::
  "ee_env \<Rightarrow> ee_world \<Rightarrow> ee_operator_data \<Rightarrow> string \<Rightarrow> nat option \<Rightarrow> (ib_status \<times> int) option" where
  "feed_result env w instance_data s capt =
     (case ee_operator_execute_stream env w 0 instance_data (bytestr_field s) capt of
        None \<Rightarrow> None
      | Some r \<Rightarrow> Some (fst r, fst (snd r)))"

text \<open>
  The world after the streamed chunks GE, T / and xyz: the third chunk finds no edge and
  exhausts the automaton.
\<close>

definition world_latched :: ee_world where
  "world_latched =
     feed env_ok (feed env_ok (feed env_ok world0 get_op ''GE'' None) get_op ''T /'' None)
       get_op ''xyz'' None"

text \<open>A list field and a number field.\<close>

definition list_field :: ib_field where
  "list_field = \<lparr>ftype = IB_FTYPE_LIST, fvalue_rc = IB_OK, fvalue = []\<rparr>"

definition num_field :: ib_field where
  "num_field = \<lparr>ftype = IB_FTYPE_NUM, fvalue_rc = IB_OK, fvalue = []\<rparr>"


text \<open>
  Configuration services that succeed: every file is readable and holds the automaton for
  GET. An engine with no pattern, and the engine after loading that file under the name
  get.
\<close>

definition load_env_ok :: ee_load_env where
  "load_env_ok =
     \<lparr>relative_file = (\<lambda>curr_file filename. filename), file_readable = (\<lambda>f. True),
      create_from_path = (\<lambda>f. (IA_EUDOXUS_OK, get_automaton)),
      register_cleanup_rc = IB_OK, pattern_hash_set_rc = IB_OK\<rparr>"

definition create_env_ok :: ee_create_env where
  "create_env_ok =
     \<lparr>module_get_rc = IB_OK, alloc_operator_data_ok = True, uuid_create_rc = IB_OK,
      uuid = ''6ba7b810-9dad-41d1-80b4-00c04fd430c8''\<rparr>"

definition engine0 :: ee_engine where
  "engine0 = \<lparr>eudoxus_pattern_hash = [], main_cleanups = []\<rparr>"

definition engine_get :: ee_engine where
  "engine_get =
     snd (load_eudoxus_pattern_param2 load_env_ok engine0 ''ironbee.conf'' ''get'' ''get.e'')"


text \<open>
  A Lua runtime in which everything is in place and every service succeeds; the module
  defines handlers for the states 0 and 2 and for log events, and none for state 1.
\<close>

definition lua_env_ok :: modlua_env where
  "lua_env_ok =
     \<lparr>module_config_rc = IB_OK, acquirestate_rc = IB_OK, releasestate_rc = IB_OK,
      checkstack_ok = True, has_module_global = LUA_TTABLE, has_module = LUA_TFUNCTION,
      has_module_pcall_ok = True, has_module_result = Some True,
      reload_ctx_main_rc = IB_OK, reload_ctx_except_main_rc = IB_OK,
      modlua_global = LUA_TTABLE, dispatch_module = LUA_TFUNCTION,
      dispatch_module_logevent = LUA_TFUNCTION, get_callbacks = LUA_TFUNCTION,
      get_callbacks_pcall_rc = (\<lambda>state. IB_OK),
      get_callbacks_result = (\<lambda>state. if state = 1 then LUA_TNIL else LUA_TTABLE),
      get_callbacks_logevents = LUA_TFUNCTION, get_callbacks_logevents_pcall_rc = IB_OK,
      get_callbacks_logevents_result = LUA_TTABLE, handler_pcall_rc = IB_OK\<rparr>"



section \<open>Properties of the Eudoxus operators\<close>

lemmas ee_eval =
  ee_operator_execute_def ee_match_operator_execute_def
  ee_match_operator_execute_nonstream_def ee_operator_execute_common_def
  ee_common_loop.simps ia_eudoxus_create_state_def ia_eudoxus_destroy_state_def
  ia_eudoxus_execute_def ee_first_match_callback_def env_ok_def world0_def world1_def
  fresh_data_def bytestr_field_def get_op_def abc_op_def get_automaton_def abc_automaton_def

lemma ee_common_loop_unfold:
  assumes "ia_eudoxus_execute (ee_first_match_callback env) (ia_states w) (eudoxus_state data)
             input (ee_cbdata data, captures w) = (ia_rc, states', cbd', caps')"
  shows "ee_common_loop env full_match input_len input data w =
           (if ia_rc = IA_EUDOXUS_STOP then
                (if full_match then
                   (if unat (match_len cbd') = input_len
                    then (IB_OK, 1, data\<lparr>ee_cbdata := cbd'\<rparr>,
                          w\<lparr>ia_states := states', captures := caps'\<rparr>)
                    else ee_common_loop env full_match input_len None
                           (data\<lparr>ee_cbdata := cbd'\<rparr>)
                           (w\<lparr>ia_states := states', captures := caps'\<rparr>))
                 else (IB_OK, 1, data\<lparr>ee_cbdata := cbd'\<rparr>,
                       w\<lparr>ia_states := states', captures := caps'\<rparr>))
              else if ia_rc = IA_EUDOXUS_END then
                (IB_OK, 0, data\<lparr>ee_cbdata := cbd', end_of_automata := True\<rparr>,
                 w\<lparr>ia_states := states', captures := caps'\<rparr>)
              else if ia_rc \<noteq> IA_EUDOXUS_OK then
                (IB_EUNKNOWN, 0, data\<lparr>ee_cbdata := cbd'\<rparr>,
                 w\<lparr>ia_states := states', captures := caps'\<rparr>)
              else (IB_OK, 0, data\<lparr>ee_cbdata := cbd'\<rparr>,
                    w\<lparr>ia_states := states', captures := caps'\<rparr>))"
  by (subst ee_common_loop.simps) (simp only: assms prod.case Let_def)

lemma ee_common_loop_full_len:
  "full_match \<Longrightarrow> fst (snd (ee_common_loop env full_match n input data w)) = 1
     \<Longrightarrow> unat (match_len (ee_cbdata
                 (fst (snd (snd (ee_common_loop env full_match n input data w)))))) = n"
proof (induction env full_match n input data w rule: ee_common_loop.induct)
  case (1 env full_match input_len input data w)
  obtain ia_rc states' cbd' caps' where
    E: "ia_eudoxus_execute (ee_first_match_callback env) (ia_states w) (eudoxus_state data)
             input (ee_cbdata data, captures w) = (ia_rc, states', cbd', caps')"
    by (metis prod_cases4)
  note U = ee_common_loop_unfold[OF E]
  show ?case
  proof (cases "ia_rc = IA_EUDOXUS_STOP")
    case True
    show ?thesis
    proof (cases "unat (match_len cbd') = input_len")
      case True
      with \<open>ia_rc = IA_EUDOXUS_STOP\<close> "1.prems" show ?thesis by (simp add: U)
    next
      case False
      have "unat (match_len (ee_cbdata (fst (snd (snd
              (ee_common_loop env full_match input_len None (data\<lparr>ee_cbdata := cbd'\<rparr>)
                 (w\<lparr>ia_states := states', captures := caps'\<rparr>))))))) = input_len"
        using "1.IH"[OF E[symmetric] refl refl refl refl True "1.prems"(1) False "1.prems"(1)]
          "1.prems" True False by (simp add: U)
      with True False "1.prems" show ?thesis by (simp add: U)
    qed
  next
    case False
    with "1.prems" show ?thesis by (auto simp add: U split: if_splits)
  qed
qed

lemma ee_first_match_callback_cases:
  "ee_first_match_callback env out (cbd, caps) = (cmd, cbd', caps') \<Longrightarrow>
     (cmd = IA_EUDOXUS_CMD_CONTINUE \<and> cbd' = cbd\<lparr>match_len := 0\<rparr> \<and> caps' = caps) \<or>
     (cmd \<noteq> IA_EUDOXUS_CMD_CONTINUE \<and> match_len cbd' = of_nat (length out))"
  by (auto simp add: ee_first_match_callback_def Let_def split: option.splits if_splits)

lemma ia_output_stop_records:
  "ia_output (ee_first_match_callback env) outs (cbd, caps) = (IA_EUDOXUS_CMD_STOP, cbd', caps')
    \<Longrightarrow> \<exists>out \<in> set outs. match_len cbd' = of_nat (length out)"
proof (induction outs arbitrary: cbd caps)
  case Nil
  then show ?case by simp
next
  case (Cons o1 outs)
  obtain cmd c1 k1 where cb: "ee_first_match_callback env o1 (cbd, caps) = (cmd, c1, k1)"
    by (metis prod_cases3)
  show ?case
  proof (cases cmd)
    case IA_EUDOXUS_CMD_CONTINUE
    with Cons.prems cb have "ia_output (ee_first_match_callback env) outs (c1, k1)
        = (IA_EUDOXUS_CMD_STOP, cbd', caps')" by simp
    from Cons.IH[OF this] show ?thesis by auto
  next
    case IA_EUDOXUS_CMD_STOP
    with Cons.prems cb have "c1 = cbd'" by simp
    with ee_first_match_callback_cases[OF cb] IA_EUDOXUS_CMD_STOP show ?thesis by auto
  next
    case IA_EUDOXUS_CMD_ERROR
    with Cons.prems cb show ?thesis by simp
  qed
qed

lemma ia_run_stop_records:
  "ia_run a (ee_first_match_callback env) n inp (cbd, caps)
      = (IA_EUDOXUS_STOP, n', rest, cbd', caps')
    \<Longrightarrow> \<exists>out \<in> set (node_outputs a n'). match_len cbd' = of_nat (length out)"
proof (induction inp arbitrary: n cbd caps)
  case Nil
  then show ?case by simp
next
  case (Cons c cs)
  show ?case
  proof (cases "next_node a n c")
    case None
    with Cons.prems show ?thesis by simp
  next
    case (Some m)
    obtain cmd c1 k1 where
      out: "ia_output (ee_first_match_callback env) (node_outputs a m) (cbd, caps)
              = (cmd, c1, k1)"
      by (metis prod_cases3)
    show ?thesis
    proof (cases cmd)
      case IA_EUDOXUS_CMD_CONTINUE
      with Cons.prems Some out have "ia_run a (ee_first_match_callback env) m cs (c1, k1)
         = (IA_EUDOXUS_STOP, n', rest, cbd', caps')" by simp
      from Cons.IH[OF this] show ?thesis .
    next
      case IA_EUDOXUS_CMD_STOP
      with Cons.prems Some out have "m = n'" "c1 = cbd'" "k1 = caps'" by simp_all
      with out IA_EUDOXUS_CMD_STOP ia_output_stop_records show ?thesis by blast
    next
      case IA_EUDOXUS_CMD_ERROR
      with Cons.prems Some out show ?thesis by simp
    qed
  qed
qed

lemma ee_common_loop_match_is_output:
  "fst (snd (ee_common_loop env full_match n input data w)) = 1
     \<Longrightarrow> eudoxus_state data = Some h \<Longrightarrow> ia_states w h = Some st
     \<Longrightarrow> \<exists>nd out. out \<in> set (node_outputs (automaton st) nd)
           \<and> match_len (ee_cbdata
                 (fst (snd (snd (ee_common_loop env full_match n input data w)))))
               = of_nat (length out)"
proof (induction env full_match n input data w arbitrary: st rule: ee_common_loop.induct)
  case (1 env full_match input_len input data w)
  let ?inp = "case input of Some i \<Rightarrow> i | None \<Rightarrow> input_location st"
  obtain ia_rc n' rest cbd' caps' where
    R: "ia_run (automaton st) (ee_first_match_callback env) (node st) ?inp
          (ee_cbdata data, captures w) = (ia_rc, n', rest, cbd', caps')"
    by (metis prod_cases5)
  let ?st' = "st\<lparr>node := n', input_location := rest\<rparr>"
  let ?states' = "(ia_states w)(h \<mapsto> ?st')"
  have E: "ia_eudoxus_execute (ee_first_match_callback env) (ia_states w) (eudoxus_state data)
             input (ee_cbdata data, captures w) = (ia_rc, ?states', cbd', caps')"
    using R "1.prems"(2,3) by (simp add: ia_eudoxus_execute_def)
  note U = ee_common_loop_unfold[OF E]
  show ?case
  proof (cases "ia_rc = IA_EUDOXUS_STOP")
    case False
    with "1.prems"(1) show ?thesis by (auto simp add: U split: if_splits)
  next
    case True
    with R ia_run_stop_records[of "automaton st" env "node st" ?inp "ee_cbdata data"
        "captures w" n' rest cbd' caps']
    have rec: "\<exists>out \<in> set (node_outputs (automaton st) n').
                 match_len cbd' = of_nat (length out)"
      by simp
    show ?thesis
    proof (cases "full_match \<and> unat (match_len cbd') \<noteq> input_len")
      case False
      with True rec show ?thesis by (auto simp add: U)
    next
      case resume: True
      let ?data' = "data\<lparr>ee_cbdata := cbd'\<rparr>"
      let ?w' = "w\<lparr>ia_states := ?states', captures := caps'\<rparr>"
      from True resume have L: "ee_common_loop env full_match input_len input data w
          = ee_common_loop env full_match input_len None ?data' ?w'"
        by (simp add: U)
      have p1: "fst (snd (ee_common_loop env full_match input_len None ?data' ?w')) = 1"
        using "1.prems"(1) L by simp
      have p2: "eudoxus_state ?data' = Some h" using "1.prems"(2) by simp
      have p3: "ia_states ?w' h = Some ?st'" by simp
      from resume have fm: full_match and ne: "unat (match_len cbd') \<noteq> input_len"
        by simp_all
      from "1.IH"[OF E[symmetric] refl refl refl refl True fm ne p1 p2 p3] L
      show ?thesis by simp
    qed
  qed
qed

lemma ee_nonstream_accepts_output_length:
  assumes "fst (snd (ee_match_operator_execute_nonstream env w instance_data field capt
                       full_match)) = 1"
  shows "\<exists>nd out. out \<in> set (node_outputs (eudoxus instance_data) nd)
           \<and> (full_match \<longrightarrow> unat (word_of_nat (length out) :: 32 word)
                 = length (if ftype field = IB_FTYPE_NULSTR
                           then c_strlen_prefix (fvalue field) else fvalue field))"
proof -
  let ?h = "next_handle w"
  let ?st = "\<lparr>automaton = eudoxus instance_data, node = start_node (eudoxus instance_data),
               input_location = []\<rparr>"
  let ?w1 = "w\<lparr>ia_states := (ia_states w)(?h \<mapsto> ?st), next_handle := Suc ?h\<rparr>"
  let ?data = "\<lparr>eudoxus_state = Some ?h, ee_cbdata = \<lparr>capture = capt, match_len = 0\<rparr>,
                 end_of_automata = False\<rparr>"
  let ?inp = "if ftype field = IB_FTYPE_NULSTR
                           then c_strlen_prefix (fvalue field) else fvalue field"
  from assms have ok: "create_state_rc env = IA_EUDOXUS_OK"
    by (auto simp add: ee_match_operator_execute_nonstream_def ia_eudoxus_create_state_def
        Let_def split: if_splits)
  with assms have c: "fst (snd (ee_operator_execute_common env ?w1 ?data field full_match)) = 1"
    by (simp add: ee_match_operator_execute_nonstream_def ia_eudoxus_create_state_def Let_def
        split: prod.splits)
  then have l: "ee_operator_execute_common env ?w1 ?data field full_match
      = ee_common_loop env full_match (length ?inp) (Some ?inp) ?data ?w1"
    by (auto simp add: ee_operator_execute_common_def split: if_splits)
  with c have l1: "fst (snd (ee_common_loop env full_match (length ?inp) (Some ?inp)
                        ?data ?w1)) = 1"
    by simp
  have s: "eudoxus_state ?data = Some ?h" "ia_states ?w1 ?h = Some ?st" by simp_all
  from ee_common_loop_match_is_output[OF l1 s]
  obtain nd out where o: "out \<in> set (node_outputs (eudoxus instance_data) nd)"
    and m: "match_len (ee_cbdata (fst (snd (snd (ee_common_loop env full_match (length ?inp)
              (Some ?inp) ?data ?w1))))) = of_nat (length out)"
    by auto
  have "full_match \<longrightarrow> unat (word_of_nat (length out) :: 32 word) = length ?inp"
  proof
    assume fm: full_match
    from ee_common_loop_full_len[OF fm l1]
    show "unat (word_of_nat (length out) :: 32 word) = length ?inp"
      unfolding m .
  qed
  with o show ?thesis by blast
qed

text \<open>
  Claim C1. The operator ee_match answers 1 only when the automaton of the instance has an
  output, the match, whose 32-bit length equals the length of the whole input; ee answers
  1 only when some output was matched, whatever its length. In the common execution in
  full-match mode a result of 1 means that the recorded match length equals the input
  length, and a pass that stops with another match length makes the loop execute again,
  resuming the input. On the input GET / with an automaton for GET the operator ee returns
  success with result 1 while ee_match returns success with result 0; on the input GET
  ee_match returns 1; with the patterns a, ab and abc, ee_match returns 0 on ab, where the
  first match is too short and the resumed scan skips the second.
\<close>

theorem ee_match_requires_full_length:
  "(fst (snd (ee_match_operator_execute env w instance_data field capt)) = 1 \<longrightarrow>
      (\<exists>nd out. out \<in> set (node_outputs (eudoxus instance_data) nd)
         \<and> unat (word_of_nat (length out) :: 32 word)
             = length (if ftype field = IB_FTYPE_NULSTR then c_strlen_prefix (fvalue field)
                       else fvalue field)))
   \<and> (fst (snd (ee_operator_execute env w instance_data field capt)) = 1 \<longrightarrow>
      (\<exists>nd out. out \<in> set (node_outputs (eudoxus instance_data) nd)))
   \<and> (fst (snd (ee_operator_execute_common env w data field True)) = 1 \<longrightarrow>
      unat (match_len (ee_cbdata
             (fst (snd (snd (ee_operator_execute_common env w data field True))))))
        = length (if ftype field = IB_FTYPE_NULSTR then c_strlen_prefix (fvalue field)
                  else fvalue field))
   \<and> (case ia_eudoxus_execute (ee_first_match_callback env) (ia_states w) (eudoxus_state data)
             input (ee_cbdata data, captures w) of
         (ia_rc, states', cbd', caps') \<Rightarrow>
           ia_rc = IA_EUDOXUS_STOP \<and> unat (match_len cbd') \<noteq> input_len \<longrightarrow>
             ee_common_loop env True input_len input data w =
             ee_common_loop env True input_len None (data\<lparr>ee_cbdata := cbd'\<rparr>)
               (w\<lparr>ia_states := states', captures := caps'\<rparr>))
   \<and> fst (ee_operator_execute env_ok world0 get_op (bytestr_field ''GET /'') None) = IB_OK
   \<and> fst (snd (ee_operator_execute env_ok world0 get_op (bytestr_field ''GET /'') None)) = 1
   \<and> fst (ee_match_operator_execute env_ok world0 get_op (bytestr_field ''GET /'') None)
        = IB_OK
   \<and> fst (snd (ee_match_operator_execute env_ok world0 get_op (bytestr_field ''GET /'') None))
        = 0
   \<and> fst (ee_match_operator_execute env_ok world0 get_op (bytestr_field ''GET'') None)
        = IB_OK
   \<and> fst (snd (ee_match_operator_execute env_ok world0 get_op (bytestr_field ''GET'') None))
        = 1
   \<and> fst (snd (ee_match_operator_execute env_ok world0 abc_op (bytestr_field ''ab'') None))
        = 0"
proof (intro conjI)
  show "fst (snd (ee_match_operator_execute env w instance_data field capt)) = 1 \<longrightarrow>
      (\<exists>nd out. out \<in> set (node_outputs (eudoxus instance_data) nd)
         \<and> unat (word_of_nat (length out) :: 32 word)
             = length (if ftype field = IB_FTYPE_NULSTR then c_strlen_prefix (fvalue field)
                       else fvalue field))"
    using ee_nonstream_accepts_output_length[of env w instance_data field capt True]
    by (simp add: ee_match_operator_execute_def)
  show "fst (snd (ee_operator_execute env w instance_data field capt)) = 1 \<longrightarrow>
      (\<exists>nd out. out \<in> set (node_outputs (eudoxus instance_data) nd))"
    using ee_nonstream_accepts_output_length[of env w instance_data field capt False]
    by (auto simp add: ee_operator_execute_def)
  show "fst (snd (ee_operator_execute_common env w data field True)) = 1 \<longrightarrow>
      unat (match_len (ee_cbdata
             (fst (snd (snd (ee_operator_execute_common env w data field True))))))
        = length (if ftype field = IB_FTYPE_NULSTR then c_strlen_prefix (fvalue field)
                  else fvalue field)"
    using ee_common_loop_full_len[of True env _ _ data w]
    by (auto simp add: ee_operator_execute_common_def)
  show "case ia_eudoxus_execute (ee_first_match_callback env) (ia_states w) (eudoxus_state data)
             input (ee_cbdata data, captures w) of
         (ia_rc, states', cbd', caps') \<Rightarrow>
           ia_rc = IA_EUDOXUS_STOP \<and> unat (match_len cbd') \<noteq> input_len \<longrightarrow>
             ee_common_loop env True input_len input data w =
             ee_common_loop env True input_len None (data\<lparr>ee_cbdata := cbd'\<rparr>)
               (w\<lparr>ia_states := states', captures := caps'\<rparr>)"
    by (auto simp add: ee_common_loop_unfold split: prod.splits)
qed (simp_all add: ee_eval)

theorem ee_match_requires_full_length_witness:
  "fst (snd (ee_match_operator_execute env_ok world0 abc_op (bytestr_field ''abc'') None)) = 1
   \<and> fst (snd (ee_operator_execute env_ok world0 abc_op (bytestr_field ''abc'') None)) = 1
   \<and> ''abc'' \<in> set (node_outputs (eudoxus abc_op) 3)
   \<and> unat (word_of_nat (length ''abc'') :: 32 word) = length (fvalue (bytestr_field ''abc''))
   \<and> fst (snd (ee_operator_execute_common env_ok (world1 abc_automaton) (fresh_data None)
               (bytestr_field ''abc'') True)) = 1
   \<and> unat (match_len (ee_cbdata (fst (snd (snd
        (ee_operator_execute_common env_ok (world1 abc_automaton) (fresh_data None)
               (bytestr_field ''abc'') True)))))) = 3
   \<and> fst (ia_eudoxus_execute (ee_first_match_callback env_ok)
            (ia_states (world1 abc_automaton)) (eudoxus_state (fresh_data None))
            (Some ''abc'') (ee_cbdata (fresh_data None), captures (world1 abc_automaton)))
        = IA_EUDOXUS_STOP
   \<and> unat (match_len (fst (snd (snd (ia_eudoxus_execute (ee_first_match_callback env_ok)
            (ia_states (world1 abc_automaton)) (eudoxus_state (fresh_data None))
            (Some ''abc'') (ee_cbdata (fresh_data None), captures (world1 abc_automaton)))))))
        \<noteq> 3"
proof -
  note T = ee_match_requires_full_length[where env = env_ok and w = "world1 abc_automaton"
          and data = "fresh_data None" and field = "bytestr_field ''abc''"
          and input = "Some ''abc''" and input_len = 3 and instance_data = abc_op
          and capt = None]
  note T0 = ee_match_requires_full_length[where env = env_ok and w = world0
          and data = "fresh_data None" and field = "bytestr_field ''abc''"
          and input = "Some ''abc''" and input_len = 3 and instance_data = abc_op
          and capt = None]
  have a: "fst (snd (ee_match_operator_execute env_ok world0 abc_op (bytestr_field ''abc'')
                       None)) = 1"
    and b: "fst (snd (ee_operator_execute env_ok world0 abc_op (bytestr_field ''abc'') None))
              = 1"
    and c: "''abc'' \<in> set (node_outputs (eudoxus abc_op) 3)"
    and d: "unat (word_of_nat (length ''abc'') :: 32 word)
              = length (fvalue (bytestr_field ''abc''))"
    by (simp_all add: ee_eval)
  from T T0 a b c d show ?thesis by (simp add: ee_eval)
qed







lemmas stream_eval =
  ee_eval feed_def feed_result_def ee_operator_execute_stream_def ee_execute_common_at_def
  get_ee_tx_data_def set_ee_tx_data_def get_or_create_operator_data_hash_def
  ib_hash_get_ex_def ib_hash_set_ex_def IB_UUID_LENGTH_def ee_tx_finished_handler_def
  ee_destroy_entry_def Let_def












text \<open>
  After the end of the automaton a feed is not always a successful no-operation. With the
  flag set in the stored data, a list field gives not-implemented, a number field gives
  invalid and a string whose value cannot be read gives the status of the value. When the
  hash service refuses to store the new data, the status of \<open>set_ee_tx_data\<close> is dropped:
  the call that meets the end sets the flag in data that no later call finds, and the next
  feed of GET starts from fresh data and returns result 1.
\<close>

theorem ee_stream_latched_feed_can_fail:
  "tx_mem world_latched 0 = Some \<lparr>eudoxus_state = Some 0,
        ee_cbdata = \<lparr>capture = None, match_len = 3\<rparr>, end_of_automata = True\<rparr>
   \<and> fst (get_ee_tx_data env_ok world_latched 0 get_op) = Inr 0
   \<and> ee_operator_execute_stream env_ok world_latched 0 get_op list_field None
        = Some (IB_ENOTIMPL, 0, world_latched)
   \<and> ee_operator_execute_stream env_ok world_latched 0 get_op num_field None
        = Some (IB_EINVAL, 0, world_latched)
   \<and> ee_operator_execute_stream env_ok world_latched 0 get_op
        ((bytestr_field ''GET'')\<lparr>fvalue_rc := IB_EALLOC\<rparr>) None
        = Some (IB_EALLOC, 0, world_latched)
   \<and> feed_result (env_ok\<lparr>hash_set_rc := IB_EALLOC\<rparr>) world0 get_op ''xyz'' None
        = Some (IB_OK, 0)
   \<and> tx_mem (feed (env_ok\<lparr>hash_set_rc := IB_EALLOC\<rparr>) world0 get_op ''xyz'' None) 0
        = Some \<lparr>eudoxus_state = Some 0,
            ee_cbdata = \<lparr>capture = None, match_len = 0\<rparr>, end_of_automata = True\<rparr>
   \<and> feed_result (env_ok\<lparr>hash_set_rc := IB_EALLOC\<rparr>)
        (feed (env_ok\<lparr>hash_set_rc := IB_EALLOC\<rparr>) world0 get_op ''xyz'' None)
        get_op ''GET'' None = Some (IB_OK, 1)"
  by (simp add: world_latched_def list_field_def num_field_def stream_eval)

text \<open>
  Claim C2, evaluated. The streamed chunks GE and T / against an automaton for GET give
  result 0 and then result 1 when the block that the transaction's pool hands out for the
  callback data holds a zero at \<open>match_len\<close>. The streaming operator never assigns that
  member, and when the block holds another value (here 1) the callback takes the match
  GET for a second match, resets the length and continues: the second chunk gives
  result 0 as well.
\<close>

theorem ee_stream_uninitialised_match_len:
  "feed_result env_ok world0 get_op ''GE'' None = Some (IB_OK, 0)
   \<and> feed_result env_ok (feed env_ok world0 get_op ''GE'' None) get_op ''T /'' None
        = Some (IB_OK, 1)
   \<and> feed_result (env_ok\<lparr>uninit_match_len := 1\<rparr>) world0 get_op ''GE'' None
        = Some (IB_OK, 0)
   \<and> feed_result (env_ok\<lparr>uninit_match_len := 1\<rparr>)
         (feed (env_ok\<lparr>uninit_match_len := 1\<rparr>) world0 get_op ''GE'' None) get_op ''T /'' None
        = Some (IB_OK, 0)"
  by (simp add: stream_eval)

lemma set_ee_tx_data_frame:
  "tx_mem (snd (set_ee_tx_data env w m instance_data p)) = tx_mem w
   \<and> captures (snd (set_ee_tx_data env w m instance_data p)) = captures w
   \<and> ia_states (snd (set_ee_tx_data env w m instance_data p)) = ia_states w
   \<and> next_addr (snd (set_ee_tx_data env w m instance_data p)) = next_addr w"
  by (simp add: set_ee_tx_data_def get_or_create_operator_data_hash_def
      split: option.splits)

lemma get_ee_tx_data_frame:
  "tx_mem (snd (get_ee_tx_data env w m instance_data)) = tx_mem w
   \<and> captures (snd (get_ee_tx_data env w m instance_data)) = captures w
   \<and> ia_states (snd (get_ee_tx_data env w m instance_data)) = ia_states w
   \<and> next_addr (snd (get_ee_tx_data env w m instance_data)) = next_addr w
   \<and> next_handle (snd (get_ee_tx_data env w m instance_data)) = next_handle w"
  by (simp add: get_ee_tx_data_def get_or_create_operator_data_hash_def
      split: option.splits)

text \<open>
  Claim C9, as the code has it. A list field makes the common execution return
  not-implemented with result 0 and with the data and the world, hence the automaton
  state, untouched; any other field type that is not a string type (number, time, float,
  generic, stream buffer) makes it return invalid-argument in the same way. Each of the
  three operators returns that status with result 0 and leaves the captures alone whenever
  it reaches the common execution: ee and ee_match once the execution state has been
  created, the streaming operator when the data of the pair are found (the world is then
  unchanged) and when it creates them (both blocks allocated, the execution state created).
\<close>

theorem ee_unsupported_field_types:
  "(ftype field = IB_FTYPE_LIST \<longrightarrow>
      ee_operator_execute_common env w data field full_match = (IB_ENOTIMPL, 0, data, w))
   \<and> (ftype field \<noteq> IB_FTYPE_NULSTR \<and> ftype field \<noteq> IB_FTYPE_BYTESTR
        \<and> ftype field \<noteq> IB_FTYPE_LIST \<longrightarrow>
      ee_operator_execute_common env w data field full_match = (IB_EINVAL, 0, data, w))
   \<and> (create_state_rc env = IA_EUDOXUS_OK
        \<and> ftype field \<noteq> IB_FTYPE_NULSTR \<and> ftype field \<noteq> IB_FTYPE_BYTESTR \<longrightarrow>
        fst (ee_operator_execute env w instance_data field capt)
          = (if ftype field = IB_FTYPE_LIST then IB_ENOTIMPL else IB_EINVAL)
        \<and> fst (snd (ee_operator_execute env w instance_data field capt)) = 0
        \<and> captures (snd (snd (ee_operator_execute env w instance_data field capt)))
            = captures w
        \<and> fst (ee_match_operator_execute env w instance_data field capt)
          = (if ftype field = IB_FTYPE_LIST then IB_ENOTIMPL else IB_EINVAL)
        \<and> fst (snd (ee_match_operator_execute env w instance_data field capt)) = 0
        \<and> captures (snd (snd (ee_match_operator_execute env w instance_data field capt)))
            = captures w)
   \<and> (fst (get_ee_tx_data env w m instance_data) = Inr p \<and> tx_mem w p = Some data
        \<and> ftype field \<noteq> IB_FTYPE_NULSTR \<and> ftype field \<noteq> IB_FTYPE_BYTESTR \<longrightarrow>
        ee_operator_execute_stream env w m instance_data field capt
          = Some (if ftype field = IB_FTYPE_LIST then IB_ENOTIMPL else IB_EINVAL, 0, w))
   \<and> (fst (get_ee_tx_data env w m instance_data) = Inl IB_ENOENT
        \<and> alloc_data_ok env \<and> alloc_cbdata_ok env \<and> create_state_rc env = IA_EUDOXUS_OK
        \<and> ftype field \<noteq> IB_FTYPE_NULSTR \<and> ftype field \<noteq> IB_FTYPE_BYTESTR \<longrightarrow>
        (\<exists>w'. ee_operator_execute_stream env w m instance_data field capt
                = Some (if ftype field = IB_FTYPE_LIST then IB_ENOTIMPL else IB_EINVAL, 0, w')
              \<and> captures w' = captures w))"
proof (intro conjI impI)
  assume "ftype field = IB_FTYPE_LIST"
  then show "ee_operator_execute_common env w data field full_match
      = (IB_ENOTIMPL, 0, data, w)"
    by (simp add: ee_operator_execute_common_def)
next
  assume "ftype field \<noteq> IB_FTYPE_NULSTR \<and> ftype field \<noteq> IB_FTYPE_BYTESTR
        \<and> ftype field \<noteq> IB_FTYPE_LIST"
  then show "ee_operator_execute_common env w data field full_match = (IB_EINVAL, 0, data, w)"
    by (simp add: ee_operator_execute_common_def)
next
  assume h: "create_state_rc env = IA_EUDOXUS_OK
        \<and> ftype field \<noteq> IB_FTYPE_NULSTR \<and> ftype field \<noteq> IB_FTYPE_BYTESTR"
  then show "fst (ee_operator_execute env w instance_data field capt)
          = (if ftype field = IB_FTYPE_LIST then IB_ENOTIMPL else IB_EINVAL)"
    by (simp add: ee_operator_execute_def ee_match_operator_execute_nonstream_def
        ia_eudoxus_create_state_def ee_operator_execute_common_def Let_def)
  from h show "fst (snd (ee_operator_execute env w instance_data field capt)) = 0"
    by (simp add: ee_operator_execute_def ee_match_operator_execute_nonstream_def
        ia_eudoxus_create_state_def ee_operator_execute_common_def Let_def)
  from h show "captures (snd (snd (ee_operator_execute env w instance_data field capt)))
            = captures w"
    by (simp add: ee_operator_execute_def ee_match_operator_execute_nonstream_def
        ia_eudoxus_create_state_def ia_eudoxus_destroy_state_def
        ee_operator_execute_common_def Let_def)
  from h show "fst (ee_match_operator_execute env w instance_data field capt)
          = (if ftype field = IB_FTYPE_LIST then IB_ENOTIMPL else IB_EINVAL)"
    by (simp add: ee_match_operator_execute_def ee_match_operator_execute_nonstream_def
        ia_eudoxus_create_state_def ee_operator_execute_common_def Let_def)
  from h show "fst (snd (ee_match_operator_execute env w instance_data field capt)) = 0"
    by (simp add: ee_match_operator_execute_def ee_match_operator_execute_nonstream_def
        ia_eudoxus_create_state_def ee_operator_execute_common_def Let_def)
  from h show "captures (snd (snd (ee_match_operator_execute env w instance_data field capt)))
            = captures w"
    by (simp add: ee_match_operator_execute_def ee_match_operator_execute_nonstream_def
        ia_eudoxus_create_state_def ia_eudoxus_destroy_state_def
        ee_operator_execute_common_def Let_def)
next
  assume h: "fst (get_ee_tx_data env w m instance_data) = Inr p \<and> tx_mem w p = Some data
        \<and> ftype field \<noteq> IB_FTYPE_NULSTR \<and> ftype field \<noteq> IB_FTYPE_BYTESTR"
  then have g: "get_ee_tx_data env w m instance_data = (Inr p, w)"
    by (auto simp add: get_ee_tx_data_def get_or_create_operator_data_hash_def
        ib_hash_get_ex_def split: option.splits if_splits prod.splits sum.splits)
  from h have "w\<lparr>tx_mem := (tx_mem w)(p \<mapsto> data)\<rparr> = w"
    by (simp add: map_upd_triv)
  with h g show "ee_operator_execute_stream env w m instance_data field capt
      = Some (if ftype field = IB_FTYPE_LIST then IB_ENOTIMPL else IB_EINVAL, 0, w)"
    by (simp add: ee_operator_execute_stream_def ee_execute_common_at_def
        ee_operator_execute_common_def)
next
  assume h: "fst (get_ee_tx_data env w m instance_data) = Inl IB_ENOENT
        \<and> alloc_data_ok env \<and> alloc_cbdata_ok env \<and> create_state_rc env = IA_EUDOXUS_OK
        \<and> ftype field \<noteq> IB_FTYPE_NULSTR \<and> ftype field \<noteq> IB_FTYPE_BYTESTR"
  obtain w1 where g: "get_ee_tx_data env w m instance_data = (Inl IB_ENOENT, w1)"
    using h by (cases "get_ee_tx_data env w m instance_data") simp
  from get_ee_tx_data_frame[of env w m instance_data] g
  have c1: "captures w1 = captures w" by simp
  from h g show "\<exists>w'. ee_operator_execute_stream env w m instance_data field capt
                = Some (if ftype field = IB_FTYPE_LIST then IB_ENOTIMPL else IB_EINVAL, 0, w')
              \<and> captures w' = captures w"
    by (simp add: ee_operator_execute_stream_def ia_eudoxus_create_state_def Let_def
        ee_execute_common_at_def set_ee_tx_data_frame ee_operator_execute_common_def c1)
qed

theorem ee_unsupported_field_types_witness:
  "ftype list_field = IB_FTYPE_LIST
   \<and> ftype num_field \<noteq> IB_FTYPE_NULSTR \<and> ftype num_field \<noteq> IB_FTYPE_BYTESTR
   \<and> ftype num_field \<noteq> IB_FTYPE_LIST
   \<and> create_state_rc env_ok = IA_EUDOXUS_OK
   \<and> alloc_data_ok env_ok \<and> alloc_cbdata_ok env_ok
   \<and> fst (get_ee_tx_data env_ok world_latched 0 get_op) = Inr 0
   \<and> fst (get_ee_tx_data env_ok world0 0 get_op) = Inl IB_ENOENT
   \<and> fst (ee_operator_execute env_ok world0 get_op list_field None) = IB_ENOTIMPL
   \<and> fst (ee_match_operator_execute env_ok world0 get_op list_field None) = IB_ENOTIMPL
   \<and> fst (ee_operator_execute env_ok world0 get_op num_field None) = IB_EINVAL
   \<and> fst (ee_match_operator_execute env_ok world0 get_op num_field None) = IB_EINVAL
   \<and> ee_operator_execute_stream env_ok world_latched 0 get_op list_field None
        = Some (IB_ENOTIMPL, 0, world_latched)
   \<and> ee_operator_execute_stream env_ok world_latched 0 get_op num_field None
        = Some (IB_EINVAL, 0, world_latched)
   \<and> feed_result env_ok world0 get_op ''GE'' None = Some (IB_OK, 0)
   \<and> ee_operator_execute_common env_ok world0 (fresh_data None) num_field True
        = (IB_EINVAL, 0, fresh_data None, world0)"
  using ee_unsupported_field_types[where field = list_field and env = env_ok and w = world0
          and instance_data = get_op and capt = None and m = 0]
        ee_unsupported_field_types[where field = list_field and env = env_ok
          and w = world_latched and m = 0 and p = 0
          and data = "\<lparr>eudoxus_state = Some 0,
             ee_cbdata = \<lparr>capture = None, match_len = 3\<rparr>, end_of_automata = True\<rparr>"
          and instance_data = get_op and capt = None]
        ee_unsupported_field_types[where field = num_field and env = env_ok
          and w = world_latched and m = 0 and p = 0
          and data = "\<lparr>eudoxus_state = Some 0,
             ee_cbdata = \<lparr>capture = None, match_len = 3\<rparr>, end_of_automata = True\<rparr>"
          and instance_data = get_op and capt = None]
        ee_unsupported_field_types[where field = num_field and env = env_ok and w = world0
          and data = "fresh_data None" and full_match = True
          and instance_data = get_op and capt = None and m = 0]
  by (simp add: list_field_def num_field_def world_latched_def stream_eval)

text \<open>
  Claim C9, as stated, fails: a number field is an unsupported field type and the three
  operators return invalid-argument for it, not not-implemented.
\<close>

theorem ee_number_field_is_invalid:
  "fst (ee_operator_execute env_ok world0 get_op num_field None) = IB_EINVAL
   \<and> fst (ee_operator_execute env_ok world0 get_op num_field None) \<noteq> IB_ENOTIMPL
   \<and> fst (ee_match_operator_execute env_ok world0 get_op num_field None) = IB_EINVAL
   \<and> feed_result env_ok world0 get_op ''GE'' None = Some (IB_OK, 0)
   \<and> ee_operator_execute_stream env_ok (feed env_ok world0 get_op ''GE'' None) 0 get_op
        num_field None = Some (IB_EINVAL, 0, feed env_ok world0 get_op ''GE'' None)"
  by (simp add: num_field_def stream_eval)
















lemmas load_eval = load_eudoxus_pattern_param2_def ee_operator_create_def
  ib_hash_get_nocase_def ib_hash_set_nocase_def ib_tolower_def load_env_ok_def
  create_env_ok_def engine0_def engine_get_def Let_def

text \<open>
  Claim C8. Loading an automaton under a name that the pattern table already holds (the
  table compares names without regard to letter case) returns already-exists and leaves the
  engine, hence every entry of the table, as it was. Creating an operator instance for a
  name that the table does not hold returns not-found, once the module object is found and
  the instance data are allocated. A lookup is not-found exactly when no name of the table
  equals the name up to letter case.
\<close>

theorem ee_pattern_name_errors:
  "(ib_hash_get_nocase (eudoxus_pattern_hash ib) pattern_name = Inr a \<longrightarrow>
      load_eudoxus_pattern_param2 env ib curr_file pattern_name filename = (IB_EEXIST, ib))
   \<and> (module_get_rc cenv = IB_OK \<and> alloc_operator_data_ok cenv
        \<and> ib_hash_get_nocase (eudoxus_pattern_hash ib) parameters = Inl IB_ENOENT \<longrightarrow>
      ee_operator_create cenv ib parameters = Inl IB_ENOENT)
   \<and> (ib_hash_get_nocase (eudoxus_pattern_hash ib) name = Inl IB_ENOENT
        \<longleftrightarrow> map ib_tolower name \<notin> (\<lambda>e. map ib_tolower (fst e)) ` set (eudoxus_pattern_hash ib))"
proof (intro conjI impI)
  assume "ib_hash_get_nocase (eudoxus_pattern_hash ib) pattern_name = Inr a"
  then show "load_eudoxus_pattern_param2 env ib curr_file pattern_name filename
      = (IB_EEXIST, ib)"
    by (simp add: load_eudoxus_pattern_param2_def)
next
  assume "module_get_rc cenv = IB_OK \<and> alloc_operator_data_ok cenv
        \<and> ib_hash_get_nocase (eudoxus_pattern_hash ib) parameters = Inl IB_ENOENT"
  then show "ee_operator_create cenv ib parameters = Inl IB_ENOENT"
    by (simp add: ee_operator_create_def)
next
  have "map_of (map (\<lambda>e. (map ib_tolower (fst e), snd e)) (eudoxus_pattern_hash ib))
          (map ib_tolower name) = None
        \<longleftrightarrow> map ib_tolower name
              \<notin> (\<lambda>e. map ib_tolower (fst e)) ` set (eudoxus_pattern_hash ib)"
    by (simp add: map_of_eq_None_iff image_image)
  then show "ib_hash_get_nocase (eudoxus_pattern_hash ib) name = Inl IB_ENOENT
        \<longleftrightarrow> map ib_tolower name \<notin> (\<lambda>e. map ib_tolower (fst e)) ` set (eudoxus_pattern_hash ib)"
    by (cases "map_of (map (\<lambda>e. (map ib_tolower (fst e), snd e)) (eudoxus_pattern_hash ib))
          (map ib_tolower name)") (simp_all add: ib_hash_get_nocase_def)
qed

theorem ee_pattern_name_errors_witness:
  "eudoxus_pattern_hash engine_get = [(''get'', get_automaton)]
   \<and> ib_hash_get_nocase (eudoxus_pattern_hash engine_get) ''GET'' = Inr get_automaton
   \<and> load_eudoxus_pattern_param2 load_env_ok engine_get ''ironbee.conf'' ''GET'' ''other.e''
        = (IB_EEXIST, engine_get)
   \<and> module_get_rc create_env_ok = IB_OK \<and> alloc_operator_data_ok create_env_ok
   \<and> ib_hash_get_nocase (eudoxus_pattern_hash engine_get) ''post'' = Inl IB_ENOENT
   \<and> ee_operator_create create_env_ok engine_get ''post'' = Inl IB_ENOENT"
  using ee_pattern_name_errors[where ib = engine_get and pattern_name = "''GET''"
          and a = get_automaton and env = load_env_ok and curr_file = "''ironbee.conf''"
          and filename = "''other.e''" and cenv = create_env_ok and parameters = "''post''"]
  by (simp add: load_eval)

section \<open>Properties of the Lua module bridge\<close>

lemmas modlua_eval =
  modlua_logevent_def modlua_null_def modlua_ctx_def modlua_conn_def modlua_tx_def
  modlua_txdata_def modlua_header_def modlua_reqline_def modlua_respline_def modlua_exit_def
  modlua_callback_setup_def modlua_push_dispatcher_def modlua_push_lua_handler_def
  modlua_push_lua_handler_logevents_def modlua_contains_module_def
  modlua_has_callback_logevents_def module_has_callback_def modlua_invoke_def


text \<open>
  Claim C6, evaluated. The dispatch functions of null, context, connection, transaction,
  transaction-data, header, request-line and response-line states release the runtime on
  every path that follows a successful acquire: the calls to the pool are an acquire and a
  release exactly when the module configuration and the acquire succeed. The dispatch
  function of log events does so on the paths that jump to its label \<open>exit\<close>, but it returns
  at once, after the acquire and without a release, when the Lua stack has no room, when
  the global \<open>modlua\<close> is nil or not a table, and when \<open>dispatch_module_logevent\<close> is nil or
  not a function.
\<close>

theorem modlua_logevent_returns_without_release:
  "modlua_logevent (lua_env_ok\<lparr>checkstack_ok := False\<rparr>) = (IB_EOTHER, [Acquire])
   \<and> modlua_logevent (lua_env_ok\<lparr>modlua_global := LUA_TNIL\<rparr>) = (IB_EINVAL, [Acquire])
   \<and> modlua_logevent (lua_env_ok\<lparr>dispatch_module_logevent := LUA_TNIL\<rparr>)
        = (IB_EINVAL, [Acquire])
   \<and> modlua_logevent (lua_env_ok\<lparr>reload_ctx_except_main_rc := IB_EINVAL\<rparr>)
        = (IB_EINVAL, [Acquire, Release])
   \<and> modlua_logevent lua_env_ok = (IB_OK, [Acquire, Release])
   \<and> snd (modlua_null env state)
        = (if module_config_rc env = IB_OK \<and> acquirestate_rc env = IB_OK
           then [Acquire, Release] else [])
   \<and> snd (modlua_ctx env state)
        = (if module_config_rc env = IB_OK \<and> acquirestate_rc env = IB_OK
           then [Acquire, Release] else [])
   \<and> snd (modlua_conn env state)
        = (if module_config_rc env = IB_OK \<and> acquirestate_rc env = IB_OK
           then [Acquire, Release] else [])
   \<and> snd (modlua_tx env state)
        = (if module_config_rc env = IB_OK \<and> acquirestate_rc env = IB_OK
           then [Acquire, Release] else [])
   \<and> snd (modlua_txdata env state)
        = (if module_config_rc env = IB_OK \<and> acquirestate_rc env = IB_OK
           then [Acquire, Release] else [])
   \<and> snd (modlua_header env state)
        = (if module_config_rc env = IB_OK \<and> acquirestate_rc env = IB_OK
           then [Acquire, Release] else [])
   \<and> snd (modlua_reqline env state)
        = (if module_config_rc env = IB_OK \<and> acquirestate_rc env = IB_OK
           then [Acquire, Release] else [])
   \<and> snd (modlua_respline env state)
        = (if module_config_rc env = IB_OK \<and> acquirestate_rc env = IB_OK
           then [Acquire, Release] else [])"
proof (intro conjI)
  show "snd (modlua_null env state)
        = (if module_config_rc env = IB_OK \<and> acquirestate_rc env = IB_OK
           then [Acquire, Release] else [])"
    by (simp add: modlua_null_def modlua_exit_def)
  show "snd (modlua_ctx env state)
        = (if module_config_rc env = IB_OK \<and> acquirestate_rc env = IB_OK
           then [Acquire, Release] else [])"
    by (simp add: modlua_ctx_def modlua_exit_def)
  show "snd (modlua_conn env state)
        = (if module_config_rc env = IB_OK \<and> acquirestate_rc env = IB_OK
           then [Acquire, Release] else [])"
    by (simp add: modlua_conn_def modlua_exit_def)
  show "snd (modlua_tx env state)
        = (if module_config_rc env = IB_OK \<and> acquirestate_rc env = IB_OK
           then [Acquire, Release] else [])"
    by (simp add: modlua_tx_def modlua_exit_def)
  show "snd (modlua_txdata env state)
        = (if module_config_rc env = IB_OK \<and> acquirestate_rc env = IB_OK
           then [Acquire, Release] else [])"
    by (simp add: modlua_txdata_def modlua_exit_def)
  show "snd (modlua_header env state)
        = (if module_config_rc env = IB_OK \<and> acquirestate_rc env = IB_OK
           then [Acquire, Release] else [])"
    by (simp add: modlua_header_def modlua_exit_def)
  show "snd (modlua_reqline env state)
        = (if module_config_rc env = IB_OK \<and> acquirestate_rc env = IB_OK
           then [Acquire, Release] else [])"
    by (simp add: modlua_reqline_def modlua_exit_def)
  show "snd (modlua_respline env state)
        = (if module_config_rc env = IB_OK \<and> acquirestate_rc env = IB_OK
           then [Acquire, Release] else [])"
    by (simp add: modlua_respline_def modlua_exit_def)
qed (simp_all add: modlua_eval lua_env_ok_def)






lemma modlua_push_dispatcher_ok:
  "modlua_push_dispatcher env = IB_OK
     \<longleftrightarrow> modlua_global env = LUA_TTABLE \<and> dispatch_module env = LUA_TFUNCTION"
  by (simp add: modlua_push_dispatcher_def)

lemma modlua_push_lua_handler_ok:
  "modlua_push_lua_handler env state = IB_OK
     \<longleftrightarrow> modlua_global env = LUA_TTABLE \<and> get_callbacks env = LUA_TFUNCTION
         \<and> get_callbacks_pcall_rc env state = IB_OK
         \<and> get_callbacks_result env state = LUA_TTABLE"
  by (simp add: modlua_push_lua_handler_def)

lemma modlua_callback_setup_ok:
  "modlua_callback_setup env state = IB_OK
     \<longleftrightarrow> modlua_global env = LUA_TTABLE \<and> dispatch_module env = LUA_TFUNCTION
         \<and> get_callbacks env = LUA_TFUNCTION
         \<and> get_callbacks_pcall_rc env state = IB_OK
         \<and> get_callbacks_result env state = LUA_TTABLE"
  unfolding modlua_callback_setup_def
  using modlua_push_dispatcher_ok[of env] modlua_push_lua_handler_ok[of env state]
  by auto






end
